theory Spec2Isabelle
  imports Main "HOL-Library.Word"
begin

section \<open>The query stub generator\<close>

text \<open>
  \<^verbatim>\<open>SimpleNLP2SQL.generate_query(self, user_input, schema)\<close> returns a dictionary
  with the two keys \<^verbatim>\<open>query\<close> and \<^verbatim>\<open>explanation\<close>. The dictionary is a record here.
  Strings are lists of bytes (the UTF-8 encoding that the database engine receives):
  concatenation and containment are the same on code points and on their encoding.
  The \<^verbatim>\<open>schema\<close> argument is of any type: the body never reads it.
\<close>

record query_result =
  query :: string
  explanation :: string

definition newline :: char where
  "newline = CHR 0x0A"

definition generate_query :: "string \<Rightarrow> 'schema \<Rightarrow> query_result" where
  "generate_query user_input schema =
     \<lparr>query = ''-- Generated from: '' @ user_input @ [newline] @ ''SELECT * FROM table_name LIMIT 5;'',
      explanation = ''This is a basic query that selects all columns from the specified table.''\<rparr>"

subsection \<open>Comments in SQL text\<close>

text \<open>
  What counts as a comment is fixed by the lexical rules of SQL as SQLite reads them:
  outside of a quoted token, \<^verbatim>\<open>--\<close> starts a comment that runs up to (not including) the
  next newline, and \<^verbatim>\<open>/*\<close> starts one that runs through the next \<^verbatim>\<open>*/\<close> or to the end
  of the text. Quoted tokens are delimited by \<^verbatim>\<open>'\<close>, \<^verbatim>\<open>"\<close>, a backquote, or
  \<^verbatim>\<open>[\<close> ... \<^verbatim>\<open>]\<close>. \<open>comment_mask\<close> marks, for each character of a text, whether it
  lies in a comment.
\<close>

datatype lex_state = Normal | LineComment | BlockComment | Quoted char

definition after_char :: "char \<Rightarrow> lex_state" where
  "after_char c =
     (if c = CHR 0x27 \<or> c = CHR 0x22 \<or> c = CHR 0x60 then Quoted c
      else if c = CHR ''['' then Quoted (CHR '']'')
      else Normal)"

fun comment_mask :: "lex_state \<Rightarrow> string \<Rightarrow> bool list" where
  "comment_mask st [] = []"
| "comment_mask Normal (c # cs) =
     (case cs of
        [] \<Rightarrow> [False]
      | d # ds \<Rightarrow>
          if c = CHR ''-'' \<and> d = CHR ''-'' then True # True # comment_mask LineComment ds
          else if c = CHR ''/'' \<and> d = CHR ''*'' then True # True # comment_mask BlockComment ds
          else False # comment_mask (after_char c) cs)"
| "comment_mask LineComment (c # cs) =
     (if c = newline then False # comment_mask Normal cs
      else True # comment_mask LineComment cs)"
| "comment_mask BlockComment (c # cs) =
     (case cs of
        [] \<Rightarrow> [True]
      | d # ds \<Rightarrow>
          if c = CHR ''*'' \<and> d = CHR ''/'' then True # True # comment_mask Normal ds
          else True # comment_mask BlockComment cs)"
| "comment_mask (Quoted q) (c # cs) =
     False # comment_mask (if c = q then Normal else Quoted q) cs"

text \<open>
  \<open>occurs_at u q i\<close>: the text \<open>u\<close> stands in \<open>q\<close> at offset \<open>i\<close>.
  \<open>inside_comment q i n\<close>: the \<open>n\<close> characters of \<open>q\<close> from offset \<open>i\<close> all lie in a comment.
  \<open>echoed_in_comment u q\<close>: some occurrence of \<open>u\<close> in \<open>q\<close> lies entirely in a comment.
\<close>

definition occurs_at :: "string \<Rightarrow> string \<Rightarrow> nat \<Rightarrow> bool" where
  "occurs_at u q i = (take (length u) (drop i q) = u)"

definition inside_comment :: "string \<Rightarrow> nat \<Rightarrow> nat \<Rightarrow> bool" where
  "inside_comment q i n = (take n (drop i (comment_mask Normal q)) = replicate n True)"

definition echoed_in_comment :: "string \<Rightarrow> string \<Rightarrow> bool" where
  "echoed_in_comment u q =
     list_ex (\<lambda>i. occurs_at u q i \<and> inside_comment q i (length u)) [0..<Suc (length q)]"

section \<open>The database engine\<close>

text \<open>
  SQLite, the \<^verbatim>\<open>sqlite3\<close> binding and \<^verbatim>\<open>pandas\<close> are outside this repository. The
  program reaches them through three statements only: the catalog query and the
  \<^verbatim>\<open>PRAGMA table_info\<close> of \<^verbatim>\<open>get_schema\<close>, and the query of the stub generator. The model
  below fixes the engine's answer to these statements on a database whose content is
  known, and leaves everything else to parameters of the engine: how file bytes decode
  into a database, which bare words its grammar refuses as a pragma argument, what a
  \<^verbatim>\<open>PRAGMA table_info\<close> with any other argument answers (it can only read), and what
  any other statement does (it may change the file).
\<close>

type_synonym byte = "8 word"

datatype sql_value = Null | Integer int | Text string

type_synonym row = "sql_value list"

text \<open>
  The exceptions that the modelled calls raise, each with its message. All of them are
  subclasses of Python's \<^verbatim>\<open>Exception\<close>.
\<close>

datatype error =
    OperationalError string
  | DatabaseError string
  | ValueError string
  | IndexError string
  | PandasDatabaseError string

fun str :: "error \<Rightarrow> string" where
  "str (OperationalError m) = m"
| "str (DatabaseError m) = m"
| "str (ValueError m) = m"
| "str (IndexError m) = m"
| "str (PandasDatabaseError m) = m"

text \<open>One row of \<^verbatim>\<open>PRAGMA table_info\<close>: cid, name, type, notnull, dflt_value, pk.\<close>

record column_info =
  col_cid :: int
  col_name :: string
  col_type :: string
  col_notnull :: int
  col_dflt_value :: "string option"
  col_pk :: int

text \<open>
  One entry of the catalog \<^verbatim>\<open>sqlite_master\<close>: its kind (\<^verbatim>\<open>table\<close>, \<^verbatim>\<open>index\<close>, \<^verbatim>\<open>view\<close>,
  \<^verbatim>\<open>trigger\<close>), its name, and for a table or view its declared columns and its rows.
\<close>

record entity =
  ent_kind :: string
  ent_name :: string
  ent_columns :: "column_info list"
  ent_rows :: "row list"

type_synonym database = "entity list"

record engine =
  decode :: "byte list \<Rightarrow> database option"
  reserved :: "string \<Rightarrow> bool"
  other_pragma :: "database \<Rightarrow> string \<Rightarrow> error + column_info list"
  other_sql :: "byte list \<Rightarrow> string \<Rightarrow> (error + row list) \<times> byte list"

subsection \<open>Reading a statement\<close>

definition is_space :: "char \<Rightarrow> bool" where
  "is_space c = (c = CHR '' '' \<or> c = CHR 0x09 \<or> c = CHR 0x0A \<or> c = CHR 0x0C \<or> c = CHR 0x0D)"

definition is_letter :: "char \<Rightarrow> bool" where
  "is_letter c = (let n = (of_char c :: nat) in (65 \<le> n \<and> n \<le> 90) \<or> (97 \<le> n \<and> n \<le> 122))"

definition is_digit :: "char \<Rightarrow> bool" where
  "is_digit c = (let n = (of_char c :: nat) in 48 \<le> n \<and> n \<le> 57)"

definition is_word_char :: "char \<Rightarrow> bool" where
  "is_word_char c = (is_letter c \<or> is_digit c \<or> c = CHR ''_'')"

text \<open>Names compare without regard to the case of ASCII letters.\<close>

definition fold_case :: "char \<Rightarrow> nat" where
  "fold_case c = (let n = (of_char c :: nat) in if 65 \<le> n \<and> n \<le> 90 then n + 32 else n)"

definition same_name :: "string \<Rightarrow> string \<Rightarrow> bool" where
  "same_name a b = (map fold_case a = map fold_case b)"

text \<open>The engine reads a comment as white space, and skips white space around a statement.\<close>

definition blank_comments :: "string \<Rightarrow> string" where
  "blank_comments sql = map2 (\<lambda>c m. if m then CHR '' '' else c) sql (comment_mask Normal sql)"

definition trim :: "string \<Rightarrow> string" where
  "trim s = rev (dropWhile is_space (rev (dropWhile is_space s)))"

definition statement :: "string \<Rightarrow> string" where
  "statement sql = trim (blank_comments sql)"

text \<open>
  A bare name: a letter or underscore, then letters, digits and underscores.
  \<open>split_words\<close> cuts a text at its blanks.
\<close>

definition bare_name :: "string \<Rightarrow> bool" where
  "bare_name s = (case s of [] \<Rightarrow> False
                  | c # cs \<Rightarrow> (is_letter c \<or> c = CHR ''_'') \<and> list_all is_word_char cs)"

fun split_words :: "string \<Rightarrow> string \<Rightarrow> string list" where
  "split_words w [] = (if w = [] then [] else [w])"
| "split_words w (c # cs) =
     (if c = CHR '' '' then (if w = [] then split_words [] cs else w # split_words [] cs)
      else split_words (w @ [c]) cs)"

text \<open>The argument of a statement of the form \<^verbatim>\<open>PRAGMA table_info(...);\<close>.\<close>

definition pragma_argument :: "string \<Rightarrow> string option" where
  "pragma_argument s =
     (if 20 \<le> length s \<and> take 18 s = ''PRAGMA table_info('' \<and> drop (length s - 2) s = '');''
      then Some (take (length s - 20) (drop 18 s)) else None)"

definition is_relation :: "entity \<Rightarrow> bool" where
  "is_relation e = (ent_kind e = ''table'' \<or> ent_kind e = ''view'')"

definition find_entity :: "database \<Rightarrow> string \<Rightarrow> entity option" where
  "find_entity db n = find (\<lambda>e. is_relation e \<and> same_name (ent_name e) n) db"


definition syntax_error :: "string \<Rightarrow> error" where
  "syntax_error tok = OperationalError (''near '' @ [CHR 0x22] @ tok @ [CHR 0x22] @ '': syntax error'')"

text \<open>
  \<^verbatim>\<open>PRAGMA table_info(arg)\<close> takes one token as its argument. A bare name that the grammar
  accepts names a table or view, looked up without regard to case; the answer is its
  columns. Two or more bare names in a row are a syntax error in every version of the
  grammar: at the first if it is refused as an argument, at the second otherwise. Every
  other argument (quoted, numeric, an unknown name, ...) is left to the engine.
\<close>

definition table_info :: "engine \<Rightarrow> database \<Rightarrow> string \<Rightarrow> error + column_info list" where
  "table_info eng db s =
     (case pragma_argument s of
        None \<Rightarrow> other_pragma eng db s
      | Some arg \<Rightarrow>
          if bare_name arg then
            (if reserved eng arg then Inl (syntax_error arg)
             else case find_entity db arg of
                    Some e \<Rightarrow> Inr (ent_columns e)
                  | None \<Rightarrow> other_pragma eng db s)
          else
            (case split_words [] arg of
               w1 # w2 # ws \<Rightarrow>
                 if list_all bare_name (w1 # w2 # ws)
                 then Inl (syntax_error (if reserved eng w1 then w1 else w2))
                 else other_pragma eng db s
             | _ \<Rightarrow> other_pragma eng db s))"

definition info_row :: "column_info \<Rightarrow> row" where
  "info_row c =
     [Integer (col_cid c), Text (col_name c), Text (col_type c), Integer (col_notnull c),
      (case col_dflt_value c of None \<Rightarrow> Null | Some d \<Rightarrow> Text d), Integer (col_pk c)]"

definition catalog_query :: string where
  "catalog_query = ''SELECT name FROM sqlite_master WHERE type='table';''"

definition stub_select :: string where
  "stub_select = ''SELECT * FROM table_name LIMIT 5;''"

definition reads_only :: "string \<Rightarrow> bool" where
  "reads_only s = (s = catalog_query \<or> s = stub_select \<or> take 18 s = ''PRAGMA table_info('')"

text \<open>The three statements that only read, on a database whose content is known.\<close>

definition run_read :: "engine \<Rightarrow> database \<Rightarrow> string \<Rightarrow> error + row list" where
  "run_read eng db s =
     (if s = catalog_query then
        Inr (map (\<lambda>e. [Text (ent_name e)]) (filter (\<lambda>e. ent_kind e = ''table'') db))
      else if s = stub_select then
        (case find_entity db ''table_name'' of
           None \<Rightarrow> Inl (OperationalError ''no such table: table_name'')
         | Some e \<Rightarrow> Inr (take 5 (ent_rows e)))
      else map_sum id (map info_row) (table_info eng db s))"

subsection \<open>Files and connections\<close>

text \<open>
  The file system maps a path to the bytes of the file there. A connection is a handle
  on a path: \<^verbatim>\<open>sqlite3.connect\<close> creates the file when there is none and reads nothing;
  the engine reads the file when a statement runs. \<open>execute\<close> is
  \<^verbatim>\<open>cursor.execute(sql)\<close> followed by \<^verbatim>\<open>cursor.fetchall()\<close>: the binding refuses a text
  with a NUL character, the engine refuses a file that is no database.
\<close>

type_synonym filesys = "string \<rightharpoonup> byte list"

datatype connection = Connection string

fun path :: "connection \<Rightarrow> string" where
  "path (Connection p) = p"

definition sqlite3_connect :: "string \<Rightarrow> filesys \<Rightarrow> filesys \<times> connection" where
  "sqlite3_connect p fs = ((if fs p = None then fs(p \<mapsto> []) else fs), Connection p)"

definition execute :: "engine \<Rightarrow> filesys \<Rightarrow> connection \<Rightarrow> string \<Rightarrow> (error + row list) \<times> filesys" where
  "execute eng fs conn sql =
     (if CHR 0x00 \<in> set sql then (Inl (ValueError ''the query contains a null character''), fs)
      else case fs (path conn) of
        None \<Rightarrow> (Inl (OperationalError ''unable to open database file''), fs)
      | Some bytes \<Rightarrow>
          if reads_only (statement sql) then
            (case decode eng bytes of
               None \<Rightarrow> (Inl (DatabaseError ''file is not a database''), fs)
             | Some db \<Rightarrow> (run_read eng db (statement sql), fs))
          else
            (case other_sql eng bytes sql of
               (r, bytes') \<Rightarrow> (r, fs(path conn \<mapsto> bytes'))))"

section \<open>The program\<close>

subsection \<open>Loading the uploaded file\<close>

text \<open>
  \<^verbatim>\<open>load_database(uploaded_file)\<close>: \<^verbatim>\<open>None\<close> for no file; otherwise the bytes of the
  upload are written over the fixed path \<^verbatim>\<open>temp_db.sqlite\<close> (mode \<^verbatim>\<open>wb\<close> truncates) and a
  connection to that path is returned.
\<close>

definition load_database :: "byte list option \<Rightarrow> filesys \<Rightarrow> filesys \<times> connection option" where
  "load_database uploaded_file fs =
     (case uploaded_file of
        None \<Rightarrow> (fs, None)
      | Some buffer \<Rightarrow>
          (case sqlite3_connect ''temp_db.sqlite'' (fs(''temp_db.sqlite'' \<mapsto> buffer)) of
             (fs', conn) \<Rightarrow> (fs', Some conn)))"

subsection \<open>Extracting the schema\<close>

text \<open>
  Python's \<^verbatim>\<open>row[i]\<close>, the truth value of a cell, and the text that an f-string puts
  for a cell.
\<close>

definition item :: "row \<Rightarrow> nat \<Rightarrow> error + sql_value" where
  "item r i = (if i < length r then Inr (r ! i) else Inl (IndexError ''tuple index out of range''))"

fun truthy :: "sql_value \<Rightarrow> bool" where
  "truthy Null = False"
| "truthy (Integer n) = (n \<noteq> 0)"
| "truthy (Text s) = (s \<noteq> [])"

fun digits :: "nat \<Rightarrow> string" where
  "digits n = (if n < 10 then [''0123456789'' ! n]
               else digits (n div 10) @ [''0123456789'' ! (n mod 10)])"

declare digits.simps [simp del]

fun py_str :: "sql_value \<Rightarrow> string" where
  "py_str Null = ''None''"
| "py_str (Integer n) = (if n < 0 then CHR ''-'' # digits (nat (- n)) else digits (nat n))"
| "py_str (Text s) = s"

text \<open>
  The schema: a dictionary from table name to \<^verbatim>\<open>{'columns': ..., 'primary_keys': ...}\<close>,
  where \<^verbatim>\<open>columns\<close> is a dictionary from column name to \<^verbatim>\<open>{'type': ...}\<close>. The keys are
  the cells that the engine returned.
\<close>

record column_entry =
  type :: sql_value

record table_entry =
  columns :: "sql_value \<rightharpoonup> column_entry"
  primary_keys :: "sql_value list"

type_synonym schema = "sql_value \<rightharpoonup> table_entry"

text \<open>\<^verbatim>\<open>{col[1]: {'type': col[2]} for col in columns}\<close>: a later row replaces an earlier key.\<close>

fun columns_dict :: "(sql_value \<rightharpoonup> column_entry) \<Rightarrow> row list \<Rightarrow> error + (sql_value \<rightharpoonup> column_entry)" where
  "columns_dict acc [] = Inr acc"
| "columns_dict acc (col # cols) =
     (case item col 1 of
        Inl e \<Rightarrow> Inl e
      | Inr k \<Rightarrow>
          (case item col 2 of
             Inl e \<Rightarrow> Inl e
           | Inr t \<Rightarrow> columns_dict (acc(k \<mapsto> \<lparr>type = t\<rparr>)) cols))"

text \<open>\<^verbatim>\<open>[col[1] for col in columns if col[5]]\<close>\<close>

fun primary_keys_list :: "row list \<Rightarrow> error + sql_value list" where
  "primary_keys_list [] = Inr []"
| "primary_keys_list (col # cols) =
     (case item col 5 of
        Inl e \<Rightarrow> Inl e
      | Inr p \<Rightarrow>
          if truthy p then
            (case item col 1 of
               Inl e \<Rightarrow> Inl e
             | Inr n \<Rightarrow>
                 (case primary_keys_list cols of
                    Inl e \<Rightarrow> Inl e
                  | Inr ns \<Rightarrow> Inr (n # ns)))
          else primary_keys_list cols)"

definition pragma_text :: "sql_value \<Rightarrow> string" where
  "pragma_text table_name = ''PRAGMA table_info('' @ py_str table_name @ '');''"

text \<open>The loop \<^verbatim>\<open>for table in tables\<close> of \<^verbatim>\<open>get_schema\<close>; an exception leaves the loop.\<close>

fun get_schema_loop ::
  "engine \<Rightarrow> connection \<Rightarrow> row list \<Rightarrow> schema \<Rightarrow> filesys \<Rightarrow> (error + schema) \<times> filesys" where
  "get_schema_loop eng conn [] schema fs = (Inr schema, fs)"
| "get_schema_loop eng conn (table # tables) schema fs =
     (case item table 0 of
        Inl e \<Rightarrow> (Inl e, fs)
      | Inr table_name \<Rightarrow>
          (case execute eng fs conn (pragma_text table_name) of
             (Inl e, fs') \<Rightarrow> (Inl e, fs')
           | (Inr cols, fs') \<Rightarrow>
               (case columns_dict Map.empty cols of
                  Inl e \<Rightarrow> (Inl e, fs')
                | Inr cd \<Rightarrow>
                    (case primary_keys_list cols of
                       Inl e \<Rightarrow> (Inl e, fs')
                     | Inr pks \<Rightarrow>
                         get_schema_loop eng conn tables
                           (schema(table_name \<mapsto> \<lparr>columns = cd, primary_keys = pks\<rparr>)) fs'))))"

definition get_schema :: "engine \<Rightarrow> connection \<Rightarrow> filesys \<Rightarrow> (error + schema) \<times> filesys" where
  "get_schema eng conn fs =
     (case execute eng fs conn ''SELECT name FROM sqlite_master WHERE type='table';'' of
        (Inl e, fs') \<Rightarrow> (Inl e, fs')
      | (Inr tables, fs') \<Rightarrow> get_schema_loop eng conn tables Map.empty fs')"

subsection \<open>The page\<close>

text \<open>
  What one run of \<^verbatim>\<open>main\<close> puts on the page, in order. The expanders of the schema are
  one element (their order on the page is not modelled).
\<close>

datatype ui =
    StTitle string
  | StMarkdown string
  | StFileUploader string
  | StSubheader string
  | StExpanders schema
  | StTextInput string
  | StCode string
  | StWrite string
  | StButton string
  | StDataframe "row list"
  | StError string
  | StInfo string

text \<open>
  \<^verbatim>\<open>pd.read_sql_query(sql, conn)\<close>: the rows of the result, or the \<^verbatim>\<open>DatabaseError\<close>
  of \<^verbatim>\<open>pandas\<close> around whatever the execution raised.
\<close>

definition read_sql_query :: "engine \<Rightarrow> string \<Rightarrow> connection \<Rightarrow> filesys \<Rightarrow> (error + row list) \<times> filesys" where
  "read_sql_query eng sql conn fs =
     (case execute eng fs conn sql of
        (Inl e, fs') \<Rightarrow>
          (Inl (PandasDatabaseError
                  (''Execution failed on sql '' @ [CHR 0x27] @ sql @ [CHR 0x27] @ '': '' @ str e)), fs')
      | (Inr rows, fs') \<Rightarrow> (Inr rows, fs'))"

text \<open>The \<^verbatim>\<open>try\<close> ... \<^verbatim>\<open>except Exception\<close> under the button (lines 109 to 114 of the source).\<close>

definition execute_query :: "engine \<Rightarrow> string \<Rightarrow> connection \<Rightarrow> filesys \<Rightarrow> ui list \<times> filesys" where
  "execute_query eng sql conn fs =
     (case read_sql_query eng sql conn fs of
        (Inr df, fs') \<Rightarrow> ([StSubheader ''Query Results'', StDataframe df], fs')
      | (Inl e, fs') \<Rightarrow> ([StError (''Error executing query: '' @ str e)], fs'))"

text \<open>
  One run of \<^verbatim>\<open>main\<close>, from the uploaded file (if any), the text in the input field and
  whether the button was pressed: the page, the exception that ended the run if one was
  not caught, and the file system afterwards. An uploaded file object is true in a
  condition; a text is true when it is not empty.
\<close>

definition page_head :: "ui list" where
  "page_head =
     [StTitle ([CHR 0xF0, CHR 0x9F, CHR 0x92, CHR 0xAC] @ '' Natural Language to SQL Converter''),
      StMarkdown ''Upload your SQLite database and type your query in natural language.'',
      StFileUploader ''Upload SQLite Database'']"

definition main ::
  "engine \<Rightarrow> byte list option \<Rightarrow> string \<Rightarrow> bool \<Rightarrow> filesys \<Rightarrow> (ui list \<times> error option) \<times> filesys" where
  "main eng uploaded_file user_input button fs =
     (case uploaded_file of
        None \<Rightarrow>
          ((page_head @
              [StInfo ([CHR 0xF0, CHR 0x9F, CHR 0x91, CHR 0x86]
                        @ '' Please upload a SQLite database file to begin.'')], None), fs)
      | Some buffer \<Rightarrow>
          (case load_database uploaded_file fs of
             (fs1, None) \<Rightarrow>
               ((page_head @
                   [StError ''Error loading database. Please make sure it's a valid SQLite database.''],
                 None), fs1)
           | (fs1, Some conn) \<Rightarrow>
               (case get_schema eng conn fs1 of
                  (Inl e, fs2) \<Rightarrow> ((page_head, Some e), fs2)
                | (Inr schema, fs2) \<Rightarrow>
                    (let page1 = page_head @
                           [StSubheader ''Available Tables'', StExpanders schema,
                            StTextInput ''Enter your query in natural language'']
                     in if user_input = [] then ((page1, None), fs2)
                        else
                          (let result = generate_query user_input schema;
                               page2 = page1 @
                                 [StSubheader ''Generated SQL Query'', StCode (query result),
                                  StSubheader ''Explanation'', StWrite (explanation result),
                                  StButton ''Execute Query'']
                           in if button then
                                (case execute_query eng (query result) conn fs2 of
                                   (shown, fs3) \<Rightarrow> ((page2 @ shown, None), fs3))
                              else ((page2, None), fs2))))))"

section \<open>Sample databases\<close>

text \<open>
  Concrete inputs on which the program is evaluated below: a database with two ordinary
  tables and a view, one with a table named \<^verbatim>\<open>table_name\<close> of six rows, one with a table
  whose name has a space in it (as the \<^verbatim>\<open>Order Details\<close> of the Northwind sample), and an
  engine that decodes five fixed byte strings into them, the view of the first alone
  and the empty database, and refuses every other file.
\<close>

definition users_db :: database where
  "users_db =
     [\<lparr>ent_kind = ''table'', ent_name = ''users'',
       ent_columns =
         [\<lparr>col_cid = 0, col_name = ''id'', col_type = ''INTEGER'', col_notnull = 1,
           col_dflt_value = None, col_pk = 1\<rparr>,
          \<lparr>col_cid = 1, col_name = ''name'', col_type = ''TEXT'', col_notnull = 0,
           col_dflt_value = None, col_pk = 0\<rparr>],
       ent_rows = [[Integer 1, Text ''ann''], [Integer 2, Text ''bob'']]\<rparr>,
      \<lparr>ent_kind = ''table'', ent_name = ''notes'',
       ent_columns =
         [\<lparr>col_cid = 0, col_name = ''body'', col_type = ''TEXT'', col_notnull = 0,
           col_dflt_value = Some ''NULL'', col_pk = 0\<rparr>],
       ent_rows = []\<rparr>,
      \<lparr>ent_kind = ''view'', ent_name = ''names'',
       ent_columns =
         [\<lparr>col_cid = 0, col_name = ''name'', col_type = ''TEXT'', col_notnull = 0,
           col_dflt_value = None, col_pk = 0\<rparr>],
       ent_rows = [[Text ''ann''], [Text ''bob'']]\<rparr>]"

definition stub_db :: database where
  "stub_db =
     [\<lparr>ent_kind = ''table'', ent_name = ''table_name'',
       ent_columns =
         [\<lparr>col_cid = 0, col_name = ''n'', col_type = ''INTEGER'', col_notnull = 0,
           col_dflt_value = None, col_pk = 0\<rparr>],
       ent_rows = [[Integer 1], [Integer 2], [Integer 3], [Integer 4], [Integer 5], [Integer 6]]\<rparr>]"

definition spaced_db :: database where
  "spaced_db =
     [\<lparr>ent_kind = ''table'', ent_name = ''Order Details'',
       ent_columns =
         [\<lparr>col_cid = 0, col_name = ''OrderID'', col_type = ''INTEGER'', col_notnull = 1,
           col_dflt_value = None, col_pk = 1\<rparr>],
       ent_rows = []\<rparr>]"

definition sample_engine :: engine where
  "sample_engine =
     \<lparr>decode = (\<lambda>bs. if bs = [] then Some []
                      else if bs = [1] then Some users_db
                      else if bs = [2] then Some stub_db
                      else if bs = [3] then Some spaced_db
                      else if bs = [4] then Some (drop 2 users_db)
                      else None),
      reserved = (\<lambda>w. same_name w ''order'' \<or> same_name w ''table'' \<or> same_name w ''select''),
      other_pragma = (\<lambda>db s. Inr []),
      other_sql = (\<lambda>bs sql. (Inl (OperationalError ''not supported''), bs))\<rparr>"


section \<open>Properties of the query stub generator\<close>

lemma length_comment_mask: "length (comment_mask st s) = length s"
  by (induction st s rule: comment_mask.induct) (auto split: list.splits)

lemma comment_mask_line:
  "newline \<notin> set xs \<Longrightarrow>
   comment_mask LineComment (xs @ newline # ys) =
     replicate (length xs) True @ False # comment_mask Normal ys"
  by (induction xs) auto

lemma comment_mask_query:
  assumes "newline \<notin> set xs"
  shows "comment_mask Normal (''-- Generated from: '' @ xs @ newline # ys) =
           replicate (19 + length xs) True @ False # comment_mask Normal ys"
proof -
  have nl: "newline \<notin> set ('' Generated from: '' @ xs)"
    using assms by (simp add: newline_def)
  have "comment_mask Normal (''-- Generated from: '' @ xs @ newline # ys) =
          True # True # comment_mask LineComment (('' Generated from: '' @ xs) @ newline # ys)"
    by simp
  also have "\<dots> = True # True # replicate (length ('' Generated from: '' @ xs)) True
                       @ False # comment_mask Normal ys"
    using comment_mask_line [OF nl] by simp
  also have "\<dots> = replicate (19 + length xs) True @ False # comment_mask Normal ys"
    by (simp add: replicate_add eval_nat_numeral)
  finally show ?thesis .
qed

text \<open>
  C1. \<open>generate_query\<close> is a function of the user text alone: for every text and any two
  schema arguments, of whatever types, it returns the same pair of query and explanation.
\<close>

theorem generate_query_ignores_schema:
  "generate_query user_input schema1 = generate_query user_input schema2"
  by (simp add: generate_query_def)

text \<open>
  C2, as stated, at the input \<^verbatim>\<open>a\nb\<close>: no occurrence of the input in the returned query
  lies entirely in a comment, since the newline of the input ends the line comment.
\<close>

theorem generate_query_newline_counterexample:
  "\<not> echoed_in_comment [CHR ''a'', CHR 0x0A, CHR ''b'']
       (query (generate_query [CHR ''a'', CHR 0x0A, CHR ''b''] ()))"
  by (simp add: echoed_in_comment_def occurs_at_def inside_comment_def generate_query_def
      newline_def after_char_def upt_rec)

text \<open>
  C2, amended. For every user text, the returned query holds the text verbatim right after
  the prefix \<^verbatim>\<open>-- Generated from: \<close> (offset 19); that occurrence lies entirely in a
  comment exactly when the text has no newline; and the explanation is the same constant
  for every input.
\<close>

theorem generate_query_echo:
  "occurs_at user_input (query (generate_query user_input schema)) 19
   \<and> (newline \<notin> set user_input \<longrightarrow>
        inside_comment (query (generate_query user_input schema)) 19 (length user_input))
   \<and> (newline \<in> set user_input \<longrightarrow>
        \<not> inside_comment (query (generate_query user_input schema)) 19 (length user_input))
   \<and> explanation (generate_query user_input schema) =
        ''This is a basic query that selects all columns from the specified table.''"
proof -
  let ?sel = "''SELECT * FROM table_name LIMIT 5;''"
  let ?q = "query (generate_query user_input schema)"
  have q: "?q = ''-- Generated from: '' @ user_input @ newline # ?sel"
    by (simp add: generate_query_def)
  have occ: "occurs_at user_input ?q 19"
    by (simp add: occurs_at_def generate_query_def)
  have pos: "inside_comment ?q 19 (length user_input)" if "newline \<notin> set user_input"
    unfolding inside_comment_def q comment_mask_query [OF that]
    by (simp add: replicate_add)
  have neg: "\<not> inside_comment ?q 19 (length user_input)" if "newline \<in> set user_input"
  proof
    assume ins: "inside_comment ?q 19 (length user_input)"
    from that obtain xs ys where u: "user_input = xs @ newline # ys" and xs: "newline \<notin> set xs"
      by (meson split_list_first)
    have qq: "?q = ''-- Generated from: '' @ xs @ newline # (ys @ newline # ?sel)"
      unfolding q by (simp add: u)
    have m: "comment_mask Normal ?q =
        replicate (19 + length xs) True @ False # comment_mask Normal (ys @ newline # ?sel)"
      unfolding qq by (rule comment_mask_query [OF xs])
    have "take (length user_input) (drop 19 (comment_mask Normal ?q)) ! length xs = False"
      unfolding m by (simp add: u replicate_add nth_append)
    moreover have "length xs < length user_input"
      by (simp add: u)
    then have "replicate (length user_input) True ! length xs = True"
      by (simp only: nth_replicate)
    ultimately show False
      using ins by (simp add: inside_comment_def)
  qed
  show ?thesis
    using occ pos neg by (simp add: generate_query_def)
qed

theorem generate_query_echo_witness:
  "occurs_at ''show all users'' (query (generate_query ''show all users'' ())) 19
   \<and> newline \<notin> set ''show all users''
   \<and> inside_comment (query (generate_query ''show all users'' ())) 19 (length ''show all users'')
   \<and> newline \<in> set [CHR ''a'', newline, CHR ''b'']
   \<and> \<not> inside_comment (query (generate_query [CHR ''a'', newline, CHR ''b''] ())) 19
         (length [CHR ''a'', newline, CHR ''b''])"
  using generate_query_echo [of "''show all users''" "()"]
    generate_query_echo [of "[CHR ''a'', newline, CHR ''b'']" "()"]
  by (simp add: newline_def)

section \<open>Properties of the engine and of the program\<close>

lemma mask_pragma_prefix:
  "comment_mask Normal (''PRAGMA table_info('' @ r) = replicate 18 False @ comment_mask Normal r"
  by (cases r) (simp_all add: after_char_def eval_nat_numeral)

lemma take_blank_pragma:
  "take 18 (blank_comments (''PRAGMA table_info('' @ r)) = ''PRAGMA table_info(''"
  unfolding blank_comments_def mask_pragma_prefix
  by (simp add: eval_nat_numeral)

lemma blank_pragma:
  "\<exists>r'. blank_comments (''PRAGMA table_info('' @ r) = ''PRAGMA table_info('' @ r'"
proof -
  have "length (blank_comments (''PRAGMA table_info('' @ r)) \<ge> 18"
    by (simp add: blank_comments_def length_comment_mask)
  then have "blank_comments (''PRAGMA table_info('' @ r) =
      take 18 (blank_comments (''PRAGMA table_info('' @ r)) @ drop 18 (blank_comments (''PRAGMA table_info('' @ r))"
    by simp
  then show ?thesis unfolding take_blank_pragma by blast
qed

lemma trim_keeps_prefix:
  assumes "p \<noteq> []" "\<not> is_space (hd p)" "\<not> is_space (last p)"
  shows "take (length p) (trim (p @ r)) = p"
proof -
  have front: "dropWhile is_space (p @ r) = p @ r"
    using assms by (cases p) auto
  have bk: "dropWhile is_space (rev p) = rev p"
    using assms by (cases "rev p") (auto simp: last_rev hd_rev)
  show ?thesis
    unfolding trim_def front
    by (simp add: dropWhile_append bk)
qed

lemma statement_pragma:
  "take 18 (statement (pragma_text t)) = ''PRAGMA table_info(''"
proof -
  obtain r' where b: "blank_comments (pragma_text t) = ''PRAGMA table_info('' @ r'"
    unfolding pragma_text_def using blank_pragma by blast
  have l: "length ''PRAGMA table_info('' = 18"
    by simp
  have "take (length ''PRAGMA table_info('') (trim (''PRAGMA table_info('' @ r')) = ''PRAGMA table_info(''"
    by (rule trim_keeps_prefix) (simp_all add: is_space_def)
  then have "take 18 (trim (''PRAGMA table_info('' @ r')) = ''PRAGMA table_info(''"
    unfolding l .
  then show ?thesis
    unfolding statement_def b .
qed


lemma reads_only_pragma: "reads_only (statement (pragma_text t))"
  by (simp add: reads_only_def statement_pragma)

lemma pragma_not_select:
  "statement (pragma_text t) \<noteq> catalog_query" "statement (pragma_text t) \<noteq> stub_select"
proof -
  have "take 18 catalog_query \<noteq> ''PRAGMA table_info(''" "take 18 stub_select \<noteq> ''PRAGMA table_info(''"
    by (simp_all add: catalog_query_def stub_select_def)
  then show "statement (pragma_text t) \<noteq> catalog_query" "statement (pragma_text t) \<noteq> stub_select"
    using statement_pragma [of t] by auto
qed

lemma run_read_pragma:
  "run_read eng db (statement (pragma_text t)) =
     map_sum id (map info_row) (table_info eng db (statement (pragma_text t)))"
  by (simp add: run_read_def pragma_not_select)

lemma execute_pragma:
  "execute eng fs conn (pragma_text t) =
     (if CHR 0x00 \<in> set (pragma_text t)
      then (Inl (ValueError ''the query contains a null character''), fs)
      else case fs (path conn) of
        None \<Rightarrow> (Inl (OperationalError ''unable to open database file''), fs)
      | Some bytes \<Rightarrow>
          (case decode eng bytes of
             None \<Rightarrow> (Inl (DatabaseError ''file is not a database''), fs)
           | Some db \<Rightarrow>
               (map_sum id (map info_row) (table_info eng db (statement (pragma_text t))), fs)))"
  by (simp add: execute_def reads_only_pragma run_read_pragma split: option.splits)

lemma statement_catalog:
  "statement ''SELECT name FROM sqlite_master WHERE type='table';'' = catalog_query"
  by (simp add: statement_def blank_comments_def trim_def is_space_def after_char_def
      catalog_query_def)

lemma execute_catalog:
  "execute eng fs conn ''SELECT name FROM sqlite_master WHERE type='table';'' =
     (case fs (path conn) of
        None \<Rightarrow> (Inl (OperationalError ''unable to open database file''), fs)
      | Some bytes \<Rightarrow>
          (case decode eng bytes of
             None \<Rightarrow> (Inl (DatabaseError ''file is not a database''), fs)
           | Some db \<Rightarrow>
               (Inr (map (\<lambda>e. [Text (ent_name e)]) (filter (\<lambda>e. ent_kind e = ''table'') db)), fs)))"
  unfolding execute_def statement_catalog
  by (simp add: reads_only_def run_read_def split: option.splits)

lemma snd_execute_pragma: "snd (execute eng fs conn (pragma_text t)) = fs"
  by (simp add: execute_pragma split: option.splits)

lemma snd_execute_catalog:
  "snd (execute eng fs conn ''SELECT name FROM sqlite_master WHERE type='table';'') = fs"
  by (simp add: execute_catalog split: option.splits)





lemma snd_get_schema_loop: "snd (get_schema_loop eng conn tables schema fs) = fs"
proof (induction tables arbitrary: schema)
  case Nil
  show ?case by simp
next
  case (Cons table tables)
  show ?case
  proof (cases "item table 0")
    case (Inl e)
    then show ?thesis by simp
  next
    case (Inr table_name)
    obtain r fs' where ex: "execute eng fs conn (pragma_text table_name) = (r, fs')"
      by (cases "execute eng fs conn (pragma_text table_name)")
    then have fs': "fs' = fs"
      using snd_execute_pragma [of eng fs conn table_name] by simp
    show ?thesis
      using Inr ex fs' Cons.IH
      by (simp split: sum.splits)
  qed
qed









lemma fst_execute_pragma_cong:
  "fs (path conn) = fs' (path conn) \<Longrightarrow>
   fst (execute eng fs conn (pragma_text t)) = fst (execute eng fs' conn (pragma_text t))"
  by (simp add: execute_pragma split: option.splits)

lemma fst_get_schema_loop_cong:
  assumes "fs (path conn) = fs' (path conn)"
  shows "fst (get_schema_loop eng conn tables schema fs) =
         fst (get_schema_loop eng conn tables schema fs')"
proof (induction tables arbitrary: schema)
  case Nil
  show ?case by simp
next
  case (Cons table tables)
  show ?case
  proof (cases "item table 0")
    case (Inl e)
    then show ?thesis by simp
  next
    case (Inr table_name)
    obtain r where ex: "execute eng fs conn (pragma_text table_name) = (r, fs)"
      using snd_execute_pragma [of eng fs conn table_name]
      by (cases "execute eng fs conn (pragma_text table_name)") simp
    obtain r' where ex': "execute eng fs' conn (pragma_text table_name) = (r', fs')"
      using snd_execute_pragma [of eng fs' conn table_name]
      by (cases "execute eng fs' conn (pragma_text table_name)") simp
    have "r = r'"
      using fst_execute_pragma_cong [where fs = fs and fs' = fs' and conn = conn and eng = eng and t = table_name]
        assms ex ex' by simp
    then show ?thesis
      using Inr ex ex'
      by (auto split: sum.splits intro!: Cons.IH)
  qed
qed

lemma fst_get_schema_cong:
  assumes "fs (path conn) = fs' (path conn)"
  shows "fst (get_schema eng conn fs) = fst (get_schema eng conn fs')"
proof -
  obtain r where ex: "execute eng fs conn ''SELECT name FROM sqlite_master WHERE type='table';'' = (r, fs)"
    using snd_execute_catalog [of eng fs conn]
    by (cases "execute eng fs conn ''SELECT name FROM sqlite_master WHERE type='table';''") simp
  obtain r' where ex': "execute eng fs' conn ''SELECT name FROM sqlite_master WHERE type='table';'' = (r', fs')"
    using snd_execute_catalog [of eng fs' conn]
    by (cases "execute eng fs' conn ''SELECT name FROM sqlite_master WHERE type='table';''") simp
  have "r = r'"
    using ex ex' assms by (simp add: execute_catalog split: option.splits)
  then show ?thesis
    unfolding get_schema_def ex ex'
    using fst_get_schema_loop_cong [where fs = fs and fs' = fs' and conn = conn] assms
    by (simp split: sum.splits)
qed


text \<open>
  C9. \<^verbatim>\<open>get_schema\<close> leaves the database as it found it: whatever the engine, the
  connection and the files, the file system after the call is the one before it. The
  only statements it runs are the catalog query and \<^verbatim>\<open>PRAGMA table_info\<close>, whatever the
  table names are, and both only read.
\<close>

theorem get_schema_reads_only: "snd (get_schema eng conn fs) = fs"
proof -
  obtain r where ex: "execute eng fs conn ''SELECT name FROM sqlite_master WHERE type='table';'' = (r, fs)"
    using snd_execute_catalog [of eng fs conn]
    by (cases "execute eng fs conn ''SELECT name FROM sqlite_master WHERE type='table';''") simp
  show ?thesis
    unfolding get_schema_def ex
    by (simp add: snd_get_schema_loop split: sum.splits)
qed

text \<open>
  C10. On a database whose catalog has no entry of kind \<^verbatim>\<open>table\<close>, \<^verbatim>\<open>get_schema\<close>
  returns the empty dictionary, and raises nothing.
\<close>

theorem get_schema_no_tables:
  assumes "fs (path conn) = Some bytes" and "decode eng bytes = Some db"
    and "\<forall>e \<in> set db. ent_kind e \<noteq> ''table''"
  shows "get_schema eng conn fs = (Inr Map.empty, fs)"
proof -
  have "filter (\<lambda>e. ent_kind e = ''table'') db = []"
    using assms(3) by (simp add: filter_empty_conv)
  then show ?thesis
    using assms(1,2) by (simp add: get_schema_def execute_catalog)
qed



lemma load_database_Some:
  "load_database (Some buffer) fs =
     (fs(''temp_db.sqlite'' \<mapsto> buffer), Some (Connection ''temp_db.sqlite''))"
  by (simp add: load_database_def sqlite3_connect_def)

text \<open>
  C6. After \<^verbatim>\<open>load_database\<close> with a payload, the file \<^verbatim>\<open>temp_db.sqlite\<close> holds exactly
  the bytes of that payload, whatever was there before, and the connection returned is
  to that file. After a second upload the schema that \<^verbatim>\<open>get_schema\<close> extracts is the
  one extracted from the second payload written into an empty file system: neither the
  first payload nor the earlier files have any influence.
\<close>

theorem load_database_overwrites:
  "fst (load_database (Some second) fs) ''temp_db.sqlite'' = Some second
   \<and> snd (load_database (Some second) fs) = Some (Connection ''temp_db.sqlite'')
   \<and> fst (get_schema eng (Connection ''temp_db.sqlite'')
           (fst (load_database (Some second) (fst (load_database (Some first) fs))))) =
       fst (get_schema eng (Connection ''temp_db.sqlite'')
           (fst (load_database (Some second) Map.empty)))"
proof -
  have "fst (get_schema eng (Connection ''temp_db.sqlite'')
           (fs(''temp_db.sqlite'' \<mapsto> first, ''temp_db.sqlite'' \<mapsto> second))) =
        fst (get_schema eng (Connection ''temp_db.sqlite'')
           (Map.empty(''temp_db.sqlite'' \<mapsto> second)))"
    by (rule fst_get_schema_cong) simp
  then show ?thesis
    by (simp add: load_database_Some)
qed

text \<open>
  C5, at an uploaded file whose bytes are no database: \<^verbatim>\<open>load_database\<close> does not fail,
  it writes the bytes and returns a connection; the run of \<^verbatim>\<open>main\<close> then ends inside
  \<^verbatim>\<open>get_schema\<close> with the \<^verbatim>\<open>DatabaseError\<close> of the engine, which nothing catches, and the
  page holds the head only: the message \<^verbatim>\<open>Error loading database...\<close> of line 117 is
  not on it.
\<close>

theorem invalid_file_not_reported:
  assumes "decode eng bytes = None"
  shows "load_database (Some bytes) fs =
           (fs(''temp_db.sqlite'' \<mapsto> bytes), Some (Connection ''temp_db.sqlite''))
         \<and> main eng (Some bytes) user_input button fs =
           ((page_head, Some (DatabaseError ''file is not a database'')),
            fs(''temp_db.sqlite'' \<mapsto> bytes))"
proof -
  have "get_schema eng (Connection ''temp_db.sqlite'') (fs(''temp_db.sqlite'' \<mapsto> bytes)) =
          (Inl (DatabaseError ''file is not a database''), fs(''temp_db.sqlite'' \<mapsto> bytes))"
    using assms by (simp add: get_schema_def execute_catalog)
  then show ?thesis
    by (simp add: main_def load_database_Some)
qed

theorem invalid_file_not_reported_witness:
  "decode sample_engine [9] = None
   \<and> load_database (Some [9]) Map.empty =
       (Map.empty(''temp_db.sqlite'' \<mapsto> [9]), Some (Connection ''temp_db.sqlite''))
   \<and> main sample_engine (Some [9]) ''show all users'' True Map.empty =
       ((page_head, Some (DatabaseError ''file is not a database'')),
        Map.empty(''temp_db.sqlite'' \<mapsto> [9]))"
proof -
  have d: "decode sample_engine [9] = None"
    by (simp add: sample_engine_def)
  show ?thesis
    using d invalid_file_not_reported [OF d, of Map.empty "''show all users''" True]
    by simp
qed

lemma statement_order_details:
  "statement (pragma_text (Text ''Order Details'')) = ''PRAGMA table_info(Order Details);''"
  by (simp add: statement_def blank_comments_def trim_def is_space_def after_char_def
      pragma_text_def)

text \<open>
  C3, at a database whose one table is named \<^verbatim>\<open>Order Details\<close>: \<^verbatim>\<open>get_schema\<close> puts the
  name into the statement without quoting it, the engine refuses
  \<^verbatim>\<open>PRAGMA table_info(Order Details);\<close> with a syntax error, and \<^verbatim>\<open>get_schema\<close> raises
  that error instead of returning an entry for the table.
\<close>

theorem get_schema_spaced_table_name:
  assumes "fs (path conn) = Some bytes" and "decode eng bytes = Some spaced_db"
  shows "fst (get_schema eng conn fs) =
           Inl (syntax_error (if reserved eng ''Order'' then ''Order'' else ''Details''))"
proof -
  have t: "table_info eng spaced_db ''PRAGMA table_info(Order Details);'' =
             Inl (syntax_error (if reserved eng ''Order'' then ''Order'' else ''Details''))"
    by (simp add: table_info_def pragma_argument_def bare_name_def is_word_char_def
        is_letter_def is_digit_def)
  have nul: "CHR 0x00 \<notin> set (pragma_text (Text ''Order Details''))"
    by (simp add: pragma_text_def)
  have "execute eng fs conn (pragma_text (Text ''Order Details'')) =
          (Inl (syntax_error (if reserved eng ''Order'' then ''Order'' else ''Details'')), fs)"
    using assms nul by (simp add: execute_pragma statement_order_details t)
  then show ?thesis
    using assms
    by (simp add: get_schema_def execute_catalog spaced_db_def item_def)
qed

theorem get_schema_spaced_table_name_witness:
  "(Map.empty(''temp_db.sqlite'' \<mapsto> [3::byte])) (path (Connection ''temp_db.sqlite'')) = Some [3]
   \<and> decode sample_engine [3] = Some spaced_db
   \<and> fst (get_schema sample_engine (Connection ''temp_db.sqlite'')
            (Map.empty(''temp_db.sqlite'' \<mapsto> [3]))) =
       Inl (OperationalError (''near '' @ [CHR 0x22] @ ''Order'' @ [CHR 0x22] @ '': syntax error''))"
proof -
  have f: "(Map.empty(''temp_db.sqlite'' \<mapsto> [3::byte])) (path (Connection ''temp_db.sqlite'')) = Some [3]"
    by simp
  have d: "decode sample_engine [3] = Some spaced_db"
    by (simp add: sample_engine_def)
  have r: "reserved sample_engine ''Order''"
    by (simp add: sample_engine_def same_name_def fold_case_def)
  show ?thesis
    using f d get_schema_spaced_table_name
      [where fs = "Map.empty(''temp_db.sqlite'' \<mapsto> [3])" and conn = "Connection ''temp_db.sqlite''"
        and bytes = "[3]" and eng = sample_engine]
    by (simp add: r syntax_error_def)
qed







theorem get_schema_no_tables_witness:
  "(Map.empty(''temp_db.sqlite'' \<mapsto> [4::byte])) (path (Connection ''temp_db.sqlite'')) = Some [4]
   \<and> decode sample_engine [4] = Some (drop 2 users_db)
   \<and> filter (\<lambda>e. ent_kind e = ''table'') (drop 2 users_db) = []
   \<and> get_schema sample_engine (Connection ''temp_db.sqlite'') (Map.empty(''temp_db.sqlite'' \<mapsto> [4])) =
       (Inr Map.empty, Map.empty(''temp_db.sqlite'' \<mapsto> [4]))"
proof -
  have f: "(Map.empty(''temp_db.sqlite'' \<mapsto> [4::byte])) (path (Connection ''temp_db.sqlite'')) = Some [4]"
    by simp
  have d: "decode sample_engine [4] = Some (drop 2 users_db)"
    by (simp add: sample_engine_def)
  have k: "\<forall>e \<in> set (drop 2 users_db). ent_kind e \<noteq> ''table''"
    by (simp add: users_db_def)
  have n: "filter (\<lambda>e. ent_kind e = ''table'') (drop 2 users_db) = []"
    by (simp add: users_db_def)
  have g: "get_schema sample_engine (Connection ''temp_db.sqlite'') (Map.empty(''temp_db.sqlite'' \<mapsto> [4])) =
       (Inr Map.empty, Map.empty(''temp_db.sqlite'' \<mapsto> [4]))"
    using f d k get_schema_no_tables
      [where fs = "Map.empty(''temp_db.sqlite'' \<mapsto> [4])" and conn = "Connection ''temp_db.sqlite''"
        and bytes = "[4]" and eng = sample_engine and db = "drop 2 users_db"]
    by simp
  show ?thesis
    apply (rule conjI, rule f)
    apply (rule conjI, rule d)
    apply (rule conjI, rule n)
    apply (rule g)
    done
qed











end
